theory Spec2Isabelle
  imports Complex_Main "HOL-Library.Char_ord" "HOL-Library.List_Lexorder"
begin

section \<open>Python values and library functions used by micrometa/imagej.py\<close>

text \<open>
  The exceptions that the modelled code can raise. \<open>IndexError\<close>: indexing an
  empty list; \<open>TypeError\<close>: the \<open>%\<close> operator given a tuple whose
  length does not fit the format; \<open>IOError\<close>: raised by
  \<open>locate_templates\<close> itself, by \<open>open\<close> and by a failing write;
  \<open>OSError\<close>: \<open>os.listdir\<close> on a directory that cannot be listed.
\<close>

datatype error = IndexError | TypeError | IOError | OSError

abbreviation backslash :: char where
  "backslash \<equiv> CHR 0x5C"

abbreviation dquote :: char where
  "dquote \<equiv> CHR 0x22"

definition startswith :: "string \<Rightarrow> string \<Rightarrow> bool" where
  "startswith s p = (take (length p) s = p)"

definition endswith :: "string \<Rightarrow> string \<Rightarrow> bool" where
  "endswith s p = (length p \<le> length s \<and> drop (length s - length p) s = p)"

text \<open>\<open>s.replace(old, new)\<close> for a one-character \<open>old\<close>, the only use the module makes of it.\<close>

definition replace_char :: "char \<Rightarrow> string \<Rightarrow> string \<Rightarrow> string" where
  "replace_char old new s = concat (map (\<lambda>c. if c = old then new else [c]) s)"

text \<open>\<open>s.lower()\<close> on the ASCII letters.\<close>

definition lower_char :: "char \<Rightarrow> char" where
  "lower_char c =
  (if CHR ''A'' \<le> c \<and> c \<le> CHR ''Z'' then char_of (of_char c + (32::nat)) else
  c)"

definition lower :: "string \<Rightarrow> string" where
  "lower s = map lower_char s"

text \<open>\<open>str(n)\<close> for a non-negative integer: its decimal digits.\<close>

definition digit_char :: "nat \<Rightarrow> char" where
  "digit_char d = ''0123456789'' ! d"

fun str_nat :: "nat \<Rightarrow> string" where
  "str_nat n = (if n < 10 then [digit_char n] else str_nat (n div 10) @ [digit_char (n mod
  10)])"

declare str_nat.simps [simp del]

text \<open>
  \<open>'%0<w>i' % n\<close>: the decimal digits of \<open>n\<close>, a minus sign in front
  of a negative number, zeros between sign and digits up to a total width of \<open>w\<close>;
  a number wider than \<open>w\<close> is printed in full.
\<close>

definition fmt_0i :: "nat \<Rightarrow> int \<Rightarrow> string" where
  "fmt_0i w n =
     (let d = str_nat (nat \<bar>n\<bar>);
          sgn = (if n < 0 then ''-'' else '''')
      in sgn @ replicate (w - length sgn - length d) CHR ''0'' @ d)"

text \<open>
  A Python float as \<open>%f\<close> prints it: \<open>%f\<close> rounds to six decimal
  places, so what it prints is fixed by the sign and the magnitude in millionths after that
  rounding, or it is one of \<open>inf\<close>, \<open>-inf\<close>, \<open>nan\<close>. The
  rounding of the binary value itself is not part of the model.
\<close>

datatype pyfloat = Finite bool nat | Infinite bool | NaN

fun fmt_f :: "pyfloat \<Rightarrow> string" where
  "fmt_f (Finite neg m) =
     (let frac = str_nat (m mod 1000000)
      in (if neg then ''-'' else '''') @ str_nat (m div 1000000) @ ''.''
         @ replicate (6 - length frac) CHR ''0'' @ frac)"
| "fmt_f (Infinite neg) = (if neg then ''-inf'' else ''inf'')"
| "fmt_f NaN = ''nan''"

text \<open>
  \<open>fmt % args\<close> for a format whose only conversions are \<open>%f\<close> and a
  tuple \<open>args\<close> of floats. Python raises TypeError when the tuple is too short
  (``not enough arguments for format string'') and when it is too long (``not all arguments
  converted'').
\<close>

fun py_format :: "string \<Rightarrow> pyfloat list \<Rightarrow> error + string" where
  "py_format [] args = (if args = [] then Inr [] else Inl TypeError)"
| "py_format [c] args = (if args = [] then Inr [c] else Inl TypeError)"
| "py_format (c # d # fs) args =
     (if c = CHR ''%'' \<and> d = CHR ''f'' then
        (case args of
           [] \<Rightarrow> Inl TypeError
         | a # rest \<Rightarrow> (case py_format fs rest of Inl e \<Rightarrow> Inl e | Inr s \<Rightarrow> Inr (fmt_f a @ s)))
      else (case py_format (d # fs) args of Inl e \<Rightarrow> Inl e | Inr s \<Rightarrow> Inr (c # s)))"

subsection \<open>os.path (posixpath)\<close>

text \<open>Index just after the last \<open>/\<close>, that is \<open>p.rfind('/') + 1\<close>.\<close>

fun rfind_sep1 :: "string \<Rightarrow> nat" where
  "rfind_sep1 [] = 0"
| "rfind_sep1 (c # cs) =
     (if CHR ''/'' \<in> set cs then Suc (rfind_sep1 cs)
      else if c = CHR ''/'' then 1 else 0)"

definition rstrip_sep :: "string \<Rightarrow> string" where
  "rstrip_sep s = rev (dropWhile (\<lambda>c. c = CHR ''/'') (rev s))"

definition dirname :: "string \<Rightarrow> string" where
  "dirname p =
     (let head = take (rfind_sep1 p) p
  in if head \<noteq> [] \<and> head \<noteq> replicate (length head) CHR ''/'' then
  rstrip_sep head
         else head)"

definition basename :: "string \<Rightarrow> string" where
  "basename p = drop (rfind_sep1 p) p"

text \<open>
  \<open>splitext(p)[0]\<close>: the path without its extension. The extension starts at the
  last dot of the last component, unless that component has only dots before it.
\<close>

definition splitext_root :: "string \<Rightarrow> string" where
  "splitext_root p =
     (let name = drop (rfind_sep1 p) p;
          stem = rev (drop 1 (dropWhile (\<lambda>c. c \<noteq> CHR ''.'') (rev name)))
      in if CHR ''.'' \<in> set name \<and> (\<exists>c \<in> set stem. c \<noteq> CHR ''.'')
         then take (rfind_sep1 p) p @ stem else p)"

definition join :: "string \<Rightarrow> string \<Rightarrow> string" where
  "join a b =
     (if startswith b ''/'' then b
      else if a = [] \<or> endswith a ''/'' then a @ b
      else a @ ''/'' @ b)"

section \<open>The data model read by the module\<close>

text \<open>
  A sub-volume (\<open>micrometa.dataset.ImageData\<close>):
  \<open>get_dimensions()['Z']\<close>, \<open>position['relative']\<close> (a tuple of
  floats) and \<open>storage['full']\<close>.
\<close>

record subvol_ds =
  size_Z :: int
  position_relative :: "pyfloat list"
  storage_full :: string

text \<open>
  A mosaic (\<open>micrometa.dataset.MosaicData\<close>): its sub-volumes,
  \<open>storage['path']\<close>, \<open>supplement['index']\<close> and
  \<open>get_overlap('pct')\<close>.
\<close>

record mosaic_ds =
  subvol :: "subvol_ds list"
  storage_path :: string
  supplement_index :: int
  overlap_pct :: real

text \<open>
  An experiment (\<open>micrometa.experiment.MosaicExperiment\<close>): a sequence of mosaics
  with \<open>infile['dname']\<close>.
\<close>

record mosaic_experiment =
  mosaics :: "mosaic_ds list"
  infile_dname :: string

section \<open>gen_tile_config\<close>

definition py_module_name :: string where
  "py_module_name = ''micrometa.imagej''"

text \<open>The body of the loop over the sub-volumes, lines 51 to 58: the line of one sub-volume.\<close>

definition tile_line :: "string \<Rightarrow> string \<Rightarrow> subvol_ds \<Rightarrow> error + string" where
  "tile_line mpath coord_format vol =
     (let vol_fname = storage_full vol;
          vol_fname = (if startswith vol_fname mpath then drop (length mpath) vol_fname
                       else vol_fname);
          line = vol_fname @ ''; ; '';
          line = replace_char backslash ''/'' line
      in case py_format coord_format (position_relative vol) of
           Inl e \<Rightarrow> Inl e
         | Inr coords \<Rightarrow> Inr (line @ coords))"

text \<open>The loop itself, lines 50 and 59; \<open>conf\<close> is the list built so far.\<close>

fun tile_loop :: "string \<Rightarrow> string \<Rightarrow> string list \<Rightarrow> subvol_ds list \<Rightarrow> error + string list" where
  "tile_loop mpath coord_format conf [] = Inr conf"
| "tile_loop mpath coord_format conf (vol # vols) =
     (case tile_line mpath coord_format vol of
        Inl e \<Rightarrow> Inl e
      | Inr line \<Rightarrow> tile_loop mpath coord_format (conf @ [line]) vols)"

text \<open>
  \<open>gen_tile_config(mosaic_ds)\<close>; \<open>version\<close> is the package's
  \<open>__version__\<close>, which is set outside this module.
\<close>

definition gen_tile_config :: "string \<Rightarrow> mosaic_ds \<Rightarrow> error + string list" where
  "gen_tile_config version m =
     (case subvol m of
        [] \<Rightarrow> Inl IndexError
      | v0 # _ \<Rightarrow>
          let conf = [];
              conf = conf @ [''# Generated by '' @ py_module_name @ '' ('' @ version
                              @ '').\<newline>#\<newline>''];
              subvol_size_z = size_Z v0;
              subvol_position_dim = length (position_relative v0);
              conf = conf @ [''# Define the number of dimensions we are working on\<newline>''];
              (conf, coord_format) =
                (if subvol_size_z > 1 then
                   (conf @ [''dim = 3\<newline>''],
                    if subvol_position_dim < 3 then ''(%f, %f, 0.0)\<newline>''
                    else ''(%f, %f, %f)\<newline>'')
                 else (conf @ [''dim = 2\<newline>''], ''(%f, %f)\<newline>''));
              conf = conf @ [''# Define the image coordinates (in pixels)\<newline>'']
          in tile_loop (storage_path m) coord_format conf (subvol m))"

section \<open>Files\<close>

text \<open>
  What the module sees of the file system and of the rest of the package:
  \<open>os.listdir\<close> (\<open>None\<close> when the directory cannot be listed and
  OSError is raised), \<open>pathtools.exists\<close>, \<open>iotools.readtxt\<close> (both
  defined outside this module), the module's \<open>__file__\<close> and the package's
  \<open>__version__\<close>.
\<close>

record environment =
  listdir :: "string \<Rightarrow> string list option"
  exists :: "string \<Rightarrow> bool"
  readtxt :: "string \<Rightarrow> string \<Rightarrow> error + string list"
  module_file :: string
  version :: string

text \<open>
  The state that the writing functions change: \<open>written\<close> lists the completed
  \<open>writelines\<close> calls in order, as file name and lines; \<open>open_files\<close>
  lists the file objects that are open; \<open>open_fails\<close> and
  \<open>write_fails\<close> say for which file names \<open>open(fname, 'w')\<close> and
  \<open>writelines\<close> raise IOError.
\<close>

record world =
  written :: "(string \<times> string list) list"
  open_files :: "string list"
  open_fails :: "string \<Rightarrow> bool"
  write_fails :: "string \<Rightarrow> bool"

definition py_open :: "string \<Rightarrow> world \<Rightarrow> error + world" where
  "py_open fname w =
     (if open_fails w fname then Inl IOError
      else Inr (w\<lparr>open_files := fname # open_files w\<rparr>))"

definition writelines :: "string \<Rightarrow> string list \<Rightarrow> world \<Rightarrow> error + world" where
  "writelines fname ls w =
     (if write_fails w fname then Inl IOError
      else Inr (w\<lparr>written := written w @ [(fname, ls)]\<rparr>))"

definition py_close :: "string \<Rightarrow> world \<Rightarrow> world" where
  "py_close fname w = w\<lparr>open_files := remove1 fname (open_files w)\<rparr>"

section \<open>write_tile_config and write_all_tile_configs\<close>

text \<open>
  \<open>write_tile_config(mosaic_ds, outdir, padlen)\<close>. An exception leaves the world
  as it is at that point, so the world is returned beside the result. The calls of the logger
  are left out. \<open>padlen\<close> is a length, a natural number.
\<close>

definition write_tile_config ::
    "string \<Rightarrow> mosaic_ds \<Rightarrow> string \<Rightarrow> nat \<Rightarrow> world \<Rightarrow> world \<times> (error + unit)" where
  "write_tile_config vers m outdir padlen w =
     (case gen_tile_config vers m of
        Inl e \<Rightarrow> (w, Inl e)
      | Inr config \<Rightarrow>
          let fname = ''mosaic_'' @ fmt_0i padlen (supplement_index m) @ ''.txt'';
              fname = (if outdir = [] then join (storage_path m) fname else join outdir fname)
          in case py_open fname w of
               Inl e \<Rightarrow> (w, Inl e)
             | Inr w1 \<Rightarrow>
                 (case writelines fname config w1 of
                    Inl e \<Rightarrow> (w1, Inl e)
                  | Inr w2 \<Rightarrow> (py_close fname w2, Inr ())))"

fun write_all_loop ::
    "string \<Rightarrow> string \<Rightarrow> nat \<Rightarrow> mosaic_ds list \<Rightarrow> world \<Rightarrow> world \<times> (error + unit)" where
  "write_all_loop vers outdir padlen [] w = (w, Inr ())"
| "write_all_loop vers outdir padlen (m # ms) w =
     (case write_tile_config vers m outdir padlen w of
        (w', Inl e) \<Rightarrow> (w', Inl e)
      | (w', Inr _) \<Rightarrow> write_all_loop vers outdir padlen ms w')"

definition write_all_tile_configs ::
    "string \<Rightarrow> mosaic_experiment \<Rightarrow> string \<Rightarrow> world \<Rightarrow> world \<times> (error + unit)" where
  "write_all_tile_configs vers experiment outdir w =
     (let padlen = length (str_nat (length (mosaics experiment)))
      in write_all_loop vers outdir padlen (mosaics experiment) w)"

section \<open>locate_templates\<close>

definition locate_templates :: "environment \<Rightarrow> string \<Rightarrow> error + string" where
  "locate_templates env tplpath =
     (let tplpath =
            (if tplpath = [] then
               (let tplpath = join (dirname (module_file env)) ''ijm_templates''
                in if \<not> exists env tplpath then tplpath @ ''.zip'' else tplpath)
             else tplpath)
      in case (if endswith (lower tplpath) ''.jar'' then
                 (let jar_dir = dirname tplpath;
                      jar_basename = basename (splitext_root tplpath)
                  in case listdir env jar_dir of
                       None \<Rightarrow> Inl OSError
                     | Some names \<Rightarrow>
                         let candidates = filter (\<lambda>candidate. startswith candidate jar_basename) names;
                             candidates = sort candidates
                         in if candidates = [] then Inl IndexError
                            else Inr (join jar_dir (last candidates)))
               else Inr tplpath) of
           Inl e \<Rightarrow> Inl e
         | Inr tplpath \<Rightarrow> if \<not> exists env tplpath then Inl IOError else Inr tplpath)"

section \<open>gen_stitching_macro_code and write_stitching_macro\<close>

text \<open>
  \<open>opts\<close> is a dict; the list holds its items in the order in which
  \<open>opts.items()\<close> yields them. Values are placed in the macro as their text.
\<close>

definition gen_stitching_macro_code ::
    "environment \<Rightarrow> mosaic_experiment \<Rightarrow> string \<Rightarrow> string \<Rightarrow> string \<Rightarrow> (string \<times> string) list
     \<Rightarrow> error + string list" where
  "gen_stitching_macro_code env experiment pfx path tplpath opts =
     (case locate_templates env tplpath of
        Inl e \<Rightarrow> Inl e
      | Inr templates \<Rightarrow>
          let ijm = [];
              ijm = ijm @ [''// Generated by '' @ py_module_name @ '' ('' @ version env
                            @ '').\<newline>\<newline>''];
              ijm = ijm @ [''// =================== BEGIN macro HEAD ===================\<newline>'']
          in case readtxt env (pfx @ ''_head.ijm'') templates of
               Inl e \<Rightarrow> Inl e
             | Inr head \<Rightarrow>
                 let ijm = ijm @ head;
                     ijm = ijm @ [''// ==================== END macro HEAD ====================\<newline>''];
                     ijm = ijm @ [''\<newline>''];
                     ijm = ijm @ [''name = '' @ [dquote] @ infile_dname experiment @ [dquote]
                                   @ '';\<newline>''];
                     path = replace_char backslash [backslash, backslash] path;
                     ijm = ijm @ [''input_dir='' @ [dquote] @ path @ [dquote] @ '';\<newline>''];
                     ijm = ijm @ [''use_batch_mode = true;\<newline>''];
                     ijm = foldl (\<lambda>ijm (option, value).
                                    ijm @ [option @ '' = '' @ value @ '';\<newline>'']) ijm opts
                 in case mosaics experiment of
                      [] \<Rightarrow> Inl IndexError
                    | m0 # _ \<Rightarrow>
                        let ijm = (if overlap_pct m0 < 5.0 then ijm @ [''compute = false;\<newline>'']
                                   else ijm);
                            ijm = ijm @ [''\<newline>''];
                            ijm = ijm @ [''// =================== BEGIN macro BODY ===================\<newline>'']
                        in case readtxt env (pfx @ ''_body.ijm'') templates of
                             Inl e \<Rightarrow> Inl e
                           | Inr body \<Rightarrow>
                               let ijm = ijm @ body;
                                   ijm = ijm @ [''// ==================== END macro BODY ====================\<newline>'']
                               in Inr ijm)"

text \<open>
  \<open>write_stitching_macro(code, fname, dname)\<close>: the \<open>with\<close> statement
  closes the file also when \<open>writelines\<close> raises.
\<close>

definition write_stitching_macro ::
    "string list \<Rightarrow> string \<Rightarrow> string \<Rightarrow> world \<Rightarrow> world \<times> (error + unit)" where
  "write_stitching_macro code fname dname w =
     (let fname = join dname fname
      in case py_open fname w of
           Inl e \<Rightarrow> (w, Inl e)
         | Inr w1 \<Rightarrow>
             (case writelines fname code w1 of
                Inl e \<Rightarrow> (py_close fname w1, Inl e)
              | Inr w2 \<Rightarrow> (py_close fname w2, Inr ())))"

section \<open>Example data\<close>

definition example_vol :: "int \<Rightarrow> pyfloat list \<Rightarrow> string \<Rightarrow> subvol_ds" where
  "example_vol z pos full = \<lparr>size_Z = z, position_relative = pos, storage_full = full\<rparr>"

definition example_mosaic :: "subvol_ds list \<Rightarrow> int \<Rightarrow> real \<Rightarrow> mosaic_ds" where
  "example_mosaic vols idx pct =
     \<lparr>subvol = vols, storage_path = ''/data/m/'', supplement_index = idx, overlap_pct = pct\<rparr>"

definition example_env :: "string list \<Rightarrow> environment" where
  "example_env names =
     \<lparr>listdir = (\<lambda>d. if d = ''/plugins'' then Some names else None),
      exists = (\<lambda>p. p = ''/tpl'' \<or> p \<in> join ''/plugins'' ` set names),
      readtxt = (\<lambda>f d. if d = ''/tpl'' then Inr [''// '' @ f @ ''\<newline>''] else Inl IOError),
      module_file = ''/pkg/micrometa/imagej.py'',
      version = ''1.0''\<rparr>"

definition example_env_dangling :: environment where
  "example_env_dangling =
     (example_env [''foo-1.0.0.jar'', ''foo-1.2.0.jar''])
       \<lparr>exists := (\<lambda>p. p = ''/plugins/foo-1.0.0.jar'')\<rparr>"

definition example_mixed_mosaic :: mosaic_ds where
  "example_mixed_mosaic =
     example_mosaic [example_vol 1 [Finite False 0, Finite False 0] ''/data/m/a.oib'',
                     example_vol 1 [Finite False 0, Finite False 0] ''/other/b.oib''] 0 10"

definition example_experiment :: "real \<Rightarrow> mosaic_experiment" where
  "example_experiment pct =
     \<lparr>mosaics = [example_mosaic [example_vol 1 [Finite False 0, Finite False 0] ''/data/m/a.oib''] 0 pct],
      infile_dname = ''exp''\<rparr>"

definition example_world :: "bool \<Rightarrow> world" where
  "example_world failing =
     \<lparr>written = [], open_files = [], open_fails = (\<lambda>_. False), write_fails = (\<lambda>_. failing)\<rparr>"

definition example_experiment10 :: mosaic_experiment where
  "example_experiment10 =
     \<lparr>mosaics = map (\<lambda>i. example_mosaic
                              [example_vol 1 [Finite False 0, Finite False 0] ''/data/m/a.oib''] i 10)
                    [0, 1, 2, 3, 4, 5, 6, 7, 8, 9],
      infile_dname = ''exp''\<rparr>"

section \<open>Properties of gen_tile_config\<close>

lemma length_2_conv: "length xs = 2 \<longleftrightarrow> (\<exists>x y. xs = [x, y])"
  by (cases xs; cases "tl xs"; cases "tl (tl xs)"; auto)

lemma length_3_conv: "length xs = 3 \<longleftrightarrow> (\<exists>x y z. xs = [x, y, z])"
  by (cases xs; cases "tl xs"; cases "tl (tl xs)"; cases "tl (tl (tl xs))"; auto)

lemma replicate_numeral: "replicate (numeral k) x = x # replicate (pred_numeral k) x"
  by (simp add: numeral_eq_Suc)

lemma py_format_2d:
  "py_format ''(%f, %f)\<newline>'' args =
     (case args of [x, y] \<Rightarrow> Inr (''('' @ fmt_f x @ '', '' @ fmt_f y @ '')\<newline>'')
      | _ \<Rightarrow> Inl TypeError)"
  by (simp split: list.splits)

lemma py_format_2d_pad:
  "py_format ''(%f, %f, 0.0)\<newline>'' args =
     (case args of [x, y] \<Rightarrow> Inr (''('' @ fmt_f x @ '', '' @ fmt_f y @ '', 0.0)\<newline>'')
      | _ \<Rightarrow> Inl TypeError)"
  by (simp split: list.splits)

lemma py_format_3d:
  "py_format ''(%f, %f, %f)\<newline>'' args =
     (case args of [x, y, z] \<Rightarrow> Inr (''('' @ fmt_f x @ '', '' @ fmt_f y @ '', '' @ fmt_f z @ '')\<newline>'')
      | _ \<Rightarrow> Inl TypeError)"
  by (simp split: list.splits)

lemma replace_char_append:
  "replace_char old new (s @ t) = replace_char old new s @ replace_char old new t"
  by (simp add: replace_char_def)

lemma tile_line_Inr_iff:
  "tile_line mp cf v = Inr l \<longleftrightarrow>
     (\<exists>coords. py_format cf (position_relative v) = Inr coords \<and>
        l = replace_char backslash ''/''
              (if startswith (storage_full v) mp then drop (length mp) (storage_full v)
               else storage_full v) @ ''; ; '' @ coords)"
  by (auto simp: tile_line_def Let_def replace_char_append replace_char_def split: sum.splits)

lemma tile_line_Inl_iff:
  "tile_line mp cf v = Inl e \<longleftrightarrow> py_format cf (position_relative v) = Inl e"
  by (auto simp: tile_line_def Let_def split: sum.splits)

lemma tile_line_2d:
  "tile_line mp ''(%f, %f)\<newline>'' v = Inr l \<longleftrightarrow>
     (\<exists>x y. position_relative v = [x, y] \<and>
        l = replace_char backslash ''/''
              (if startswith (storage_full v) mp then drop (length mp) (storage_full v)
               else storage_full v) @ ''; ; '' @ ''('' @ fmt_f x @ '', '' @ fmt_f y @ '')\<newline>'')"
  unfolding tile_line_Inr_iff py_format_2d by (auto split: list.splits)

lemma tile_line_2d_pad:
  "tile_line mp ''(%f, %f, 0.0)\<newline>'' v = Inr l \<longleftrightarrow>
     (\<exists>x y. position_relative v = [x, y] \<and>
        l = replace_char backslash ''/''
              (if startswith (storage_full v) mp then drop (length mp) (storage_full v)
               else storage_full v) @ ''; ; '' @ ''('' @ fmt_f x @ '', '' @ fmt_f y @ '', 0.0)\<newline>'')"
  unfolding tile_line_Inr_iff py_format_2d_pad by (auto split: list.splits)

lemma tile_line_3d:
  "tile_line mp ''(%f, %f, %f)\<newline>'' v = Inr l \<longleftrightarrow>
     (\<exists>x y z. position_relative v = [x, y, z] \<and>
        l = replace_char backslash ''/''
              (if startswith (storage_full v) mp then drop (length mp) (storage_full v)
               else storage_full v) @ ''; ; '' @ ''('' @ fmt_f x @ '', '' @ fmt_f y @ '', '' @ fmt_f z @ '')\<newline>'')"
  unfolding tile_line_Inr_iff py_format_3d by (auto split: list.splits)

lemma tile_loop_Inr_iff:
  "tile_loop mp cf conf vols = Inr conf' \<longleftrightarrow>
     (\<exists>ls. list_all2 (\<lambda>v l. tile_line mp cf v = Inr l) vols ls \<and> conf' = conf @ ls)"
  by (induction vols arbitrary: conf) (auto simp: list_all2_Cons1 split: sum.splits)

lemma tile_loop_Inl:
  "tile_loop mp cf conf vols = Inl e \<Longrightarrow> \<exists>v \<in> set vols. tile_line mp cf v = Inl e"
  by (induction vols arbitrary: conf) (auto split: sum.splits)

lemma tile_loop_total:
  "\<forall>v \<in> set vols. \<exists>l. tile_line mp cf v = Inr l \<Longrightarrow> \<exists>conf'. tile_loop mp cf conf vols = Inr conf'"
  by (induction vols arbitrary: conf) (auto split: sum.splits)

lemma gen_tile_config_Cons:
  "subvol m = v0 # vs \<Longrightarrow>
   gen_tile_config vers m =
     tile_loop (storage_path m)
       (if 1 < size_Z v0 then
          (if length (position_relative v0) < 3 then ''(%f, %f, 0.0)\<newline>''
           else ''(%f, %f, %f)\<newline>'')
        else ''(%f, %f)\<newline>'')
       [''# Generated by '' @ py_module_name @ '' ('' @ vers @ '').\<newline>#\<newline>'',
        ''# Define the number of dimensions we are working on\<newline>'',
        if 1 < size_Z v0 then ''dim = 3\<newline>'' else ''dim = 2\<newline>'',
        ''# Define the image coordinates (in pixels)\<newline>'']
       (subvol m)"
  by (cases "1 < size_Z v0"; cases "length (position_relative v0) < 3"; simp add: gen_tile_config_def Let_def del: tile_loop.simps)

lemma gen_tile_config_Inr_nth:
  assumes "gen_tile_config vers m = Inr conf"
  shows "\<exists>v0 vs. subvol m = v0 # vs \<and> length conf = 4 + length (subvol m) \<and>
           conf ! 2 = (if 1 < size_Z v0 then ''dim = 3\<newline>'' else ''dim = 2\<newline>'') \<and>
           (\<forall>i < length (subvol m).
              tile_line (storage_path m)
                (if 1 < size_Z v0 then
                   (if length (position_relative v0) < 3 then ''(%f, %f, 0.0)\<newline>''
                    else ''(%f, %f, %f)\<newline>'')
                 else ''(%f, %f)\<newline>'')
                (subvol m ! i) = Inr (conf ! (4 + i)))"
proof (cases "subvol m")
  case Nil
  with assms show ?thesis by (simp add: gen_tile_config_def)
next
  case (Cons v0 vs)
  from assms obtain ls where
    ls: "list_all2 (\<lambda>v l. tile_line (storage_path m)
                (if 1 < size_Z v0 then
                   (if length (position_relative v0) < 3 then ''(%f, %f, 0.0)\<newline>''
                    else ''(%f, %f, %f)\<newline>'')
                 else ''(%f, %f)\<newline>'') v = Inr l) (subvol m) ls"
    and conf: "conf = [''# Generated by '' @ py_module_name @ '' ('' @ vers @ '').\<newline>#\<newline>'',
        ''# Define the number of dimensions we are working on\<newline>'',
        if 1 < size_Z v0 then ''dim = 3\<newline>'' else ''dim = 2\<newline>'',
        ''# Define the image coordinates (in pixels)\<newline>''] @ ls"
    unfolding gen_tile_config_Cons [OF Cons] tile_loop_Inr_iff by blast
  from ls have len: "length ls = length (subvol m)"
    by (simp add: list_all2_lengthD)
  have nth: "conf ! (4 + i) = ls ! i" for i
    unfolding conf by (simp add: nth_append)
  have c2: "conf ! 2 = (if 1 < size_Z v0 then ''dim = 3\<newline>'' else ''dim = 2\<newline>'')"
    unfolding conf by simp
  have "length conf = 4 + length (subvol m)"
    unfolding conf using len by simp
  moreover have "\<forall>i < length (subvol m).
              tile_line (storage_path m)
                (if 1 < size_Z v0 then
                   (if length (position_relative v0) < 3 then ''(%f, %f, 0.0)\<newline>''
                    else ''(%f, %f, %f)\<newline>'')
                 else ''(%f, %f)\<newline>'')
                (subvol m ! i) = Inr (conf ! (4 + i))"
    using ls by (simp add: list_all2_conv_all_nth nth)
  ultimately show ?thesis using Cons c2 by blast
qed

lemma gen_tile_config_total:
  assumes "subvol m = v0 # vs"
    and "\<forall>v \<in> set (subvol m). length (position_relative v) =
           (if 1 < size_Z v0 \<and> 3 \<le> length (position_relative v0) then 3 else 2)"
  shows "\<exists>conf. gen_tile_config vers m = Inr conf"
  unfolding gen_tile_config_Cons [OF assms(1)]
  apply (rule tile_loop_total)
  using assms(2)
  by (auto simp: tile_line_2d tile_line_2d_pad tile_line_3d length_2_conv length_3_conv)

lemma digit_char_no_backslash: "d < 10 \<Longrightarrow> backslash \<noteq> digit_char d"
  by (auto simp: digit_char_def nth_Cons' split: if_splits)

lemma str_nat_no_backslash: "backslash \<notin> set (str_nat n)"
proof (induction n rule: str_nat.induct)
  case (1 n)
  show ?case
  proof (cases "n < 10")
    case True
    then show ?thesis
      by (subst str_nat.simps) (simp add: digit_char_no_backslash)
  next
    case False
    moreover have "n mod 10 < 10" by simp
    ultimately show ?thesis
      using 1 by (subst str_nat.simps) (simp add: digit_char_no_backslash)
  qed
qed

lemma fmt_f_no_backslash: "backslash \<notin> set (fmt_f c)"
  by (cases c) (simp_all add: Let_def str_nat_no_backslash)

lemma py_format_no_backslash:
  "py_format cf args = Inr s \<Longrightarrow> backslash \<notin> set cf \<Longrightarrow> backslash \<notin> set s"
  by (induction cf args arbitrary: s rule: py_format.induct)
     (auto simp: fmt_f_no_backslash split: if_splits list.splits sum.splits)

lemma replace_char_no_backslash: "backslash \<notin> set (replace_char backslash ''/'' s)"
  by (induction s) (auto simp: replace_char_def)

lemma tile_line_no_backslash:
  assumes "tile_line mp cf v = Inr l" and "backslash \<notin> set cf"
  shows "backslash \<notin> set l"
proof -
  from assms(1) obtain coords where c: "py_format cf (position_relative v) = Inr coords"
    and l: "l = replace_char backslash ''/''
              (if startswith (storage_full v) mp then drop (length mp) (storage_full v)
               else storage_full v) @ ''; ; '' @ coords"
    unfolding tile_line_Inr_iff by blast
  from py_format_no_backslash [OF c assms(2)] show ?thesis
    unfolding l using replace_char_no_backslash by simp
qed

lemma gen_tile_config_no_backslash:
  assumes "gen_tile_config vers m = Inr conf" and "l \<in> set (drop 1 conf)"
  shows "backslash \<notin> set l"
proof (cases "subvol m")
  case Nil
  with assms show ?thesis by (simp add: gen_tile_config_def)
next
  case (Cons v0 vs)
  let ?cf = "if 1 < size_Z v0 then
          (if length (position_relative v0) < 3 then ''(%f, %f, 0.0)\<newline>''
           else ''(%f, %f, %f)\<newline>'')
        else ''(%f, %f)\<newline>''"
  from assms(1) obtain ls where
    ls: "list_all2 (\<lambda>v l. tile_line (storage_path m) ?cf v = Inr l) (subvol m) ls"
    and conf: "conf = [''# Generated by '' @ py_module_name @ '' ('' @ vers @ '').\<newline>#\<newline>'',
        ''# Define the number of dimensions we are working on\<newline>'',
        if 1 < size_Z v0 then ''dim = 3\<newline>'' else ''dim = 2\<newline>'',
        ''# Define the image coordinates (in pixels)\<newline>''] @ ls"
    unfolding gen_tile_config_Cons [OF Cons] tile_loop_Inr_iff by blast
  have cf: "backslash \<notin> set ?cf" by simp
  from assms(2) consider
      "l = ''# Define the number of dimensions we are working on\<newline>''"
    | "l = (if 1 < size_Z v0 then ''dim = 3\<newline>'' else ''dim = 2\<newline>'')"
    | "l = ''# Define the image coordinates (in pixels)\<newline>''"
    | "l \<in> set ls"
    unfolding conf by auto
  then show ?thesis
  proof cases
    case 4
    then obtain i where "i < length ls" and "l = ls ! i"
      by (auto simp: in_set_conv_nth)
    with ls have "tile_line (storage_path m) ?cf (subvol m ! i) = Inr l"
      by (simp add: list_all2_conv_all_nth)
    from tile_line_no_backslash [OF this cf] show ?thesis .
  qed simp_all
qed

text \<open>
  Claim C1 says that every mosaic whose first sub-volume has a z-dimension of at most 1 gets a
  \<open>dim = 2\<close> declaration and two coordinates per line. A mosaic of one such
  sub-volume whose relative position has three components gets no configuration at all: the
  format \<open>(%f, %f)\<close> is applied to a tuple of three and \<open>%\<close> raises
  TypeError.
\<close>

theorem gen_tile_config_dim_counterexample:
  "gen_tile_config ''1.0''
     (example_mosaic [example_vol 1 [Finite False 0, Finite False 0, Finite False 0] ''/data/m/a.oib''] 0 10)
   = Inl TypeError"
  by (simp add: gen_tile_config_def example_mosaic_def example_vol_def tile_line_def)

text \<open>
  Claim C1, amended: when every sub-volume's relative position has as many components as the
  chosen format has conversions (three when the first sub-volume has a z-dimension above 1 and
  at least three position components, two otherwise), \<open>gen_tile_config\<close> returns a
  configuration of four leading lines and one line per sub-volume; with a z-dimension of at
  most 1 the third line is \<open>dim = 2\<close> and every coordinate line ends in exactly
  two \<open>%f\<close> coordinates; with a z-dimension above 1 it is \<open>dim = 3\<close>
  and every coordinate line ends in three coordinates, the third being the literal
  \<open>0.0\<close> for two-component positions.
\<close>

theorem gen_tile_config_dim:
  assumes "subvol m = v0 # vs"
    and "\<forall>v \<in> set (subvol m). length (position_relative v) =
           (if 1 < size_Z v0 \<and> 3 \<le> length (position_relative v0) then 3 else 2)"
  shows "\<exists>conf. gen_tile_config vers m = Inr conf \<and> length conf = 4 + length (subvol m) \<and>
           (size_Z v0 \<le> 1 \<longrightarrow>
              conf ! 2 = ''dim = 2\<newline>'' \<and>
              (\<forall>i < length (subvol m). \<exists>p x y.
                 position_relative (subvol m ! i) = [x, y] \<and>
                 conf ! (4 + i) = p @ ''; ; '' @ ''('' @ fmt_f x @ '', '' @ fmt_f y @ '')\<newline>'')) \<and>
           (1 < size_Z v0 \<longrightarrow>
              conf ! 2 = ''dim = 3\<newline>'' \<and>
              (\<forall>i < length (subvol m). \<exists>p x y z.
                 (position_relative (subvol m ! i) = [x, y] \<and> z = ''0.0'' \<or>
                  (\<exists>c. position_relative (subvol m ! i) = [x, y, c] \<and> z = fmt_f c)) \<and>
                 conf ! (4 + i) =
                   p @ ''; ; '' @ ''('' @ fmt_f x @ '', '' @ fmt_f y @ '', '' @ z @ '')\<newline>''))"
proof -
  obtain conf where conf: "gen_tile_config vers m = Inr conf"
    using gen_tile_config_total [OF assms] by blast
  from gen_tile_config_Inr_nth [OF conf] assms(1)
  have len: "length conf = 4 + length (subvol m)"
    and c2: "conf ! 2 = (if 1 < size_Z v0 then ''dim = 3\<newline>'' else ''dim = 2\<newline>'')"
    and lines: "\<And>i. i < length (subvol m) \<Longrightarrow>
              tile_line (storage_path m)
                (if 1 < size_Z v0 then
                   (if length (position_relative v0) < 3 then ''(%f, %f, 0.0)\<newline>''
                    else ''(%f, %f, %f)\<newline>'')
                 else ''(%f, %f)\<newline>'')
                (subvol m ! i) = Inr (conf ! (4 + i))"
    by auto
  have two: "size_Z v0 \<le> 1 \<longrightarrow>
              conf ! 2 = ''dim = 2\<newline>'' \<and>
              (\<forall>i < length (subvol m). \<exists>p x y.
                 position_relative (subvol m ! i) = [x, y] \<and>
                 conf ! (4 + i) = p @ ''; ; '' @ ''('' @ fmt_f x @ '', '' @ fmt_f y @ '')\<newline>'')"
  proof (intro impI conjI allI)
    assume z: "size_Z v0 \<le> 1"
    then show "conf ! 2 = ''dim = 2\<newline>''" using c2 by simp
    fix i assume "i < length (subvol m)"
    from lines [OF this] z
    have "tile_line (storage_path m) ''(%f, %f)\<newline>'' (subvol m ! i) = Inr (conf ! (4 + i))"
      by simp
    then show "\<exists>p x y. position_relative (subvol m ! i) = [x, y] \<and>
                 conf ! (4 + i) = p @ ''; ; '' @ ''('' @ fmt_f x @ '', '' @ fmt_f y @ '')\<newline>''"
      unfolding tile_line_2d by blast
  qed
  have three: "1 < size_Z v0 \<longrightarrow>
              conf ! 2 = ''dim = 3\<newline>'' \<and>
              (\<forall>i < length (subvol m). \<exists>p x y z.
                 (position_relative (subvol m ! i) = [x, y] \<and> z = ''0.0'' \<or>
                  (\<exists>c. position_relative (subvol m ! i) = [x, y, c] \<and> z = fmt_f c)) \<and>
                 conf ! (4 + i) =
                   p @ ''; ; '' @ ''('' @ fmt_f x @ '', '' @ fmt_f y @ '', '' @ z @ '')\<newline>'')"
  proof (intro impI conjI allI)
    assume z: "1 < size_Z v0"
    then show "conf ! 2 = ''dim = 3\<newline>''" using c2 by simp
    fix i assume i: "i < length (subvol m)"
    show "\<exists>p x y z.
                 (position_relative (subvol m ! i) = [x, y] \<and> z = ''0.0'' \<or>
                  (\<exists>c. position_relative (subvol m ! i) = [x, y, c] \<and> z = fmt_f c)) \<and>
                 conf ! (4 + i) =
                   p @ ''; ; '' @ ''('' @ fmt_f x @ '', '' @ fmt_f y @ '', '' @ z @ '')\<newline>''"
    proof (cases "length (position_relative v0) < 3")
      case True
      with lines [OF i] z
      have "tile_line (storage_path m) ''(%f, %f, 0.0)\<newline>'' (subvol m ! i) = Inr (conf ! (4 + i))"
        by simp
      then obtain x y where "position_relative (subvol m ! i) = [x, y]"
        and "conf ! (4 + i) = replace_char backslash ''/''
              (if startswith (storage_full (subvol m ! i)) (storage_path m)
               then drop (length (storage_path m)) (storage_full (subvol m ! i))
               else storage_full (subvol m ! i)) @ ''; ; '' @ ''('' @ fmt_f x @ '', '' @ fmt_f y @ '', 0.0)\<newline>''"
        unfolding tile_line_2d_pad by blast
      then show ?thesis by (intro exI [of _ x] exI [of _ y] exI [of _ "''0.0''"] exI) simp
    next
      case False
      with lines [OF i] z
      have "tile_line (storage_path m) ''(%f, %f, %f)\<newline>'' (subvol m ! i) = Inr (conf ! (4 + i))"
        by simp
      then obtain x y c where "position_relative (subvol m ! i) = [x, y, c]"
        and "conf ! (4 + i) = replace_char backslash ''/''
              (if startswith (storage_full (subvol m ! i)) (storage_path m)
               then drop (length (storage_path m)) (storage_full (subvol m ! i))
               else storage_full (subvol m ! i)) @ ''; ; '' @ ''('' @ fmt_f x @ '', '' @ fmt_f y @ '', '' @ fmt_f c @ '')\<newline>''"
        unfolding tile_line_3d by blast
      then show ?thesis by (intro exI [of _ x] exI [of _ y] exI [of _ "fmt_f c"] exI) simp
    qed
  qed
  from conf len two three show ?thesis by blast
qed

text \<open>Claim C1, amended, at a mosaic of two flat sub-volumes.\<close>

theorem gen_tile_config_dim_witness:
  "\<exists>conf. gen_tile_config ''1.0''
       (example_mosaic [example_vol 1 [Finite False 0, Finite False 0] ''/data/m/a.oib'',
  example_vol 1 [Finite False 1000000, Finite False 0] ''/data/m/b.oib''] 0 10)
       = Inr conf \<and> length conf = 6 \<and> conf ! 2 = ''dim = 2\<newline>''"
proof -
  let ?v0 = "example_vol 1 [Finite False 0, Finite False 0] ''/data/m/a.oib''"
  let ?v1 = "example_vol 1 [Finite False 1000000, Finite False 0] ''/data/m/b.oib''"
  let ?m = "example_mosaic [?v0, ?v1] 0 10"
  have h1: "subvol ?m = ?v0 # [?v1]"
    by (simp add: example_mosaic_def)
  have h2: "\<forall>v \<in> set (subvol ?m). length (position_relative v) =
           (if 1 < size_Z ?v0 \<and> 3 \<le> length (position_relative ?v0) then 3 else 2)"
    by (simp add: example_mosaic_def example_vol_def)
  have z: "size_Z ?v0 \<le> 1"
    by (simp add: example_vol_def)
  from gen_tile_config_dim [OF h1 h2, of "''1.0''"] z show ?thesis
    by (auto simp: example_mosaic_def)
qed

text \<open>
  Claim C2: for a mosaic whose first sub-volume has a z-dimension above 1 and fewer than three
  relative position components, every coordinate line that \<open>gen_tile_config\<close>
  emits has the z-coordinate \<open>0.0\<close>. Either a configuration is returned and each
  of its coordinate lines ends in \<open>(x, y, 0.0)\<close>, or some sub-volume's position
  does not have two components, \<open>%\<close> raises TypeError and no line is emitted.
\<close>

theorem gen_tile_config_z_zero:
  assumes "subvol m = v0 # vs"
    and "1 < size_Z v0"
    and "length (position_relative v0) < 3"
  shows "(gen_tile_config vers m = Inl TypeError \<and>
            (\<exists>v \<in> set (subvol m). length (position_relative v) \<noteq> 2)) \<or>
         (\<exists>conf. gen_tile_config vers m = Inr conf \<and>
            length conf = 4 + length (subvol m) \<and>
            (\<forall>i < length (subvol m). \<exists>p x y.
               conf ! (4 + i) = p @ ''; ; '' @ ''('' @ fmt_f x @ '', '' @ fmt_f y @ '', 0.0)\<newline>''))"
proof (cases "gen_tile_config vers m")
  case (Inl e)
  then have "tile_loop (storage_path m) ''(%f, %f, 0.0)\<newline>''
       [''# Generated by '' @ py_module_name @ '' ('' @ vers @ '').\<newline>#\<newline>'',
        ''# Define the number of dimensions we are working on\<newline>'',
        ''dim = 3\<newline>'',
        ''# Define the image coordinates (in pixels)\<newline>'']
       (subvol m) = Inl e"
    using assms by (simp add: gen_tile_config_Cons [OF assms(1)])
  then obtain v where v: "v \<in> set (subvol m)"
    and l: "tile_line (storage_path m) ''(%f, %f, 0.0)\<newline>'' v = Inl e"
    using tile_loop_Inl by blast
  from l have "e = TypeError \<and> length (position_relative v) \<noteq> 2"
    unfolding tile_line_Inl_iff py_format_2d_pad by (auto split: list.splits)
  with v Inl show ?thesis by blast
next
  case (Inr conf)
  from gen_tile_config_Inr_nth [OF Inr] assms
  have len: "length conf = 4 + length (subvol m)"
    and lines: "\<And>i. i < length (subvol m) \<Longrightarrow>
              tile_line (storage_path m) ''(%f, %f, 0.0)\<newline>'' (subvol m ! i)
                = Inr (conf ! (4 + i))"
    by auto
  have "\<exists>p x y. conf ! (4 + i) = p @ ''; ; '' @ ''('' @ fmt_f x @ '', '' @ fmt_f y @ '', 0.0)\<newline>''"
    if "i < length (subvol m)" for i
    using lines [OF that] unfolding tile_line_2d_pad by blast
  with Inr len show ?thesis by blast
qed

text \<open>Claim C2 at a mosaic of one sub-volume with five planes and a two-component position.\<close>

theorem gen_tile_config_z_zero_witness:
  "gen_tile_config ''1.0''
  (example_mosaic [example_vol 5 [Finite False 0, Finite True 2500000] ''/data/m/a.oib''] 0
  10)
     = Inr [''# Generated by micrometa.imagej (1.0).\<newline>#\<newline>'',
            ''# Define the number of dimensions we are working on\<newline>'',
            ''dim = 3\<newline>'',
            ''# Define the image coordinates (in pixels)\<newline>'',
            ''a.oib; ; (0.000000, -2.500000, 0.0)\<newline>'']
   \<and> (\<exists>p x y. ''a.oib; ; (0.000000, -2.500000, 0.0)\<newline>''
          = p @ ''; ; '' @ ''('' @ fmt_f x @ '', '' @ fmt_f y @ '', 0.0)\<newline>'')"
proof -
  let ?v0 = "example_vol 5 [Finite False 0, Finite True 2500000] ''/data/m/a.oib''"
  let ?m = "example_mosaic [?v0] 0 10"
  have h1: "subvol ?m = ?v0 # []"
    by (simp add: example_mosaic_def)
  have h2: "1 < size_Z ?v0" and h3: "length (position_relative ?v0) < 3"
    by (simp_all add: example_vol_def)
  have ev: "gen_tile_config ''1.0'' ?m
     = Inr [''# Generated by micrometa.imagej (1.0).\<newline>#\<newline>'',
            ''# Define the number of dimensions we are working on\<newline>'',
            ''dim = 3\<newline>'',
            ''# Define the image coordinates (in pixels)\<newline>'',
            ''a.oib; ; (0.000000, -2.500000, 0.0)\<newline>'']"
  by (simp add: gen_tile_config_def example_mosaic_def example_vol_def tile_line_def
  startswith_def replace_char_def py_module_name_def str_nat.simps digit_char_def
  replicate_numeral)
  from gen_tile_config_z_zero [OF h1 h2 h3, of "''1.0''"] ev show ?thesis
    by (auto simp: example_mosaic_def)
qed

text \<open>
  Claim C10: the path emitted for a sub-volume is its full storage path without the mosaic's
  storage path when the full path starts with it, and the whole full path, in its full length,
  otherwise; in both cases with backslashes turned into forward slashes.
\<close>

theorem gen_tile_config_relative_path:
  assumes "gen_tile_config vers m = Inr conf"
    and "i < length (subvol m)"
  shows "\<exists>coords.
           (startswith (storage_full (subvol m ! i)) (storage_path m) \<longrightarrow>
              conf ! (4 + i) =
                replace_char backslash ''/''
                  (drop (length (storage_path m)) (storage_full (subvol m ! i)))
                @ ''; ; '' @ coords) \<and>
           (\<not> startswith (storage_full (subvol m ! i)) (storage_path m) \<longrightarrow>
              conf ! (4 + i) =
                replace_char backslash ''/'' (storage_full (subvol m ! i)) @ ''; ; '' @ coords \<and>
              length (replace_char backslash ''/'' (storage_full (subvol m ! i)))
                = length (storage_full (subvol m ! i)))"
proof -
  have len: "length (replace_char backslash ''/'' s) = length s" for s
    by (induction s) (simp_all add: replace_char_def)
  from gen_tile_config_Inr_nth [OF assms(1)] assms(2)
  obtain cf where "tile_line (storage_path m) cf (subvol m ! i) = Inr (conf ! (4 + i))"
    by blast
  then show ?thesis
    unfolding tile_line_Inr_iff using len by auto
qed

text \<open>
  Claim C10 at a mosaic stored under \<open>/data/m/\<close> with one sub-volume inside that
  directory and one outside of it.
\<close>

theorem gen_tile_config_relative_path_witness:
  "gen_tile_config ''1.0'' example_mixed_mosaic
     = Inr [''# Generated by micrometa.imagej (1.0).\<newline>#\<newline>'',
            ''# Define the number of dimensions we are working on\<newline>'',
            ''dim = 2\<newline>'',
            ''# Define the image coordinates (in pixels)\<newline>'',
            ''a.oib; ; (0.000000, 0.000000)\<newline>'',
            ''/other/b.oib; ; (0.000000, 0.000000)\<newline>'']
   \<and> \<not> startswith ''/other/b.oib'' ''/data/m/''
   \<and> (\<exists>coords. ''/other/b.oib; ; (0.000000, 0.000000)\<newline>''
         = replace_char backslash ''/'' ''/other/b.oib'' @ ''; ; '' @ coords)"
proof -
  have ev: "gen_tile_config ''1.0'' example_mixed_mosaic
     = Inr [''# Generated by micrometa.imagej (1.0).\<newline>#\<newline>'',
            ''# Define the number of dimensions we are working on\<newline>'',
            ''dim = 2\<newline>'',
            ''# Define the image coordinates (in pixels)\<newline>'',
            ''a.oib; ; (0.000000, 0.000000)\<newline>'',
            ''/other/b.oib; ; (0.000000, 0.000000)\<newline>'']"
    by (simp add: gen_tile_config_def example_mixed_mosaic_def example_mosaic_def example_vol_def
        tile_line_def startswith_def replace_char_def py_module_name_def str_nat.simps
        digit_char_def replicate_numeral)
  have i: "1 < length (subvol example_mixed_mosaic)"
    by (simp add: example_mixed_mosaic_def example_mosaic_def)
  have n: "\<not> startswith ''/other/b.oib'' ''/data/m/''"
    by (simp add: startswith_def)
  from gen_tile_config_relative_path [OF ev i] n ev show ?thesis
    by (auto simp: example_mixed_mosaic_def example_mosaic_def example_vol_def)
qed

section \<open>Properties of the writing functions\<close>

lemma write_tile_config_ok:
  assumes "gen_tile_config vers m = Inr c"
    and "\<forall>f. \<not> open_fails w f" and "\<forall>f. \<not> write_fails w f"
  shows "write_tile_config vers m outdir padlen w =
           (w\<lparr>written := written w @
                 [(join (if outdir = [] then storage_path m else outdir)
                     (''mosaic_'' @ fmt_0i padlen (supplement_index m) @ ''.txt''), c)]\<rparr>,
            Inr ())"
  using assms
  by (simp add: write_tile_config_def Let_def py_open_def writelines_def py_close_def)

lemma write_all_loop_ok:
  assumes "\<forall>m \<in> set ms. \<exists>c. gen_tile_config vers m = Inr c"
    and "\<forall>f. \<not> open_fails w f" and "\<forall>f. \<not> write_fails w f"
  shows "write_all_loop vers outdir padlen ms w =
           (w\<lparr>written := written w @
                 map (\<lambda>m. (join (if outdir = [] then storage_path m else outdir)
                              (''mosaic_'' @ fmt_0i padlen (supplement_index m) @ ''.txt''),
                            projr (gen_tile_config vers m))) ms\<rparr>,
            Inr ())"
  using assms
proof (induction ms arbitrary: w)
  case Nil
  then show ?case by simp
next
  case (Cons m ms)
  from Cons.prems(1) obtain c where c: "gen_tile_config vers m = Inr c"
    by auto
  let ?w1 = "w\<lparr>written := written w @
                 [(join (if outdir = [] then storage_path m else outdir)
                     (''mosaic_'' @ fmt_0i padlen (supplement_index m) @ ''.txt''), c)]\<rparr>"
  have step: "write_tile_config vers m outdir padlen w = (?w1, Inr ())"
    using write_tile_config_ok [OF c Cons.prems(2,3)] .
  have "write_all_loop vers outdir padlen ms ?w1 =
           (?w1\<lparr>written := written ?w1 @
                 map (\<lambda>m. (join (if outdir = [] then storage_path m else outdir)
                              (''mosaic_'' @ fmt_0i padlen (supplement_index m) @ ''.txt''),
                            projr (gen_tile_config vers m))) ms\<rparr>,
            Inr ())"
    using Cons.prems by (intro Cons.IH) simp_all
  then show ?case
    using step c by simp
qed

lemma fmt_0i_nonneg:
  "0 \<le> n \<Longrightarrow> fmt_0i w n = replicate (w - length (str_nat (nat n))) CHR ''0'' @ str_nat (nat n)"
  by (simp add: fmt_0i_def Let_def)

lemma gen_tile_config_example10:
  "\<forall>m \<in> set (mosaics example_experiment10). \<exists>c. gen_tile_config ''1.0'' m = Inr c"
proof
  fix m assume "m \<in> set (mosaics example_experiment10)"
  then obtain i where m: "m = example_mosaic
      [example_vol 1 [Finite False 0, Finite False 0] ''/data/m/a.oib''] i 10"
    by (auto simp: example_experiment10_def)
  show "\<exists>c. gen_tile_config ''1.0'' m = Inr c"
    by (rule gen_tile_config_total [where ?v0.0 = "example_vol 1 [Finite False 0, Finite False 0] ''/data/m/a.oib''" and vs = "[]"])
       (simp_all add: m example_mosaic_def example_vol_def)
qed

lemma written_example10:
  "map fst (written (fst (write_all_tile_configs ''1.0'' example_experiment10 ''/out''
                            (example_world False)))) =
     [''/out/mosaic_00.txt'', ''/out/mosaic_01.txt'', ''/out/mosaic_02.txt'',
      ''/out/mosaic_03.txt'', ''/out/mosaic_04.txt'', ''/out/mosaic_05.txt'',
      ''/out/mosaic_06.txt'', ''/out/mosaic_07.txt'', ''/out/mosaic_08.txt'',
      ''/out/mosaic_09.txt'']"
proof -
  have w: "\<forall>f. \<not> open_fails (example_world False) f" "\<forall>f. \<not> write_fails (example_world False) f"
    by (simp_all add: example_world_def)
  have p: "length (str_nat (length (mosaics example_experiment10))) = 2"
    by (simp add: example_experiment10_def str_nat.simps)
  show ?thesis
    unfolding write_all_tile_configs_def Let_def p
      write_all_loop_ok [OF gen_tile_config_example10 w]
    by (simp add: example_experiment10_def example_world_def example_mosaic_def comp_def
        fmt_0i_def str_nat.simps digit_char_def replicate_numeral join_def startswith_def
        endswith_def)
qed

text \<open>
  Claim C3 says that the index is padded to the width of the largest index. With ten mosaics
  of the indexes 0 to 9 the largest index has one digit and the claim gives
  \<open>mosaic_0.txt\<close>; the code pads to the two digits of the count 10 and writes
  \<open>mosaic_00.txt\<close> to \<open>mosaic_09.txt\<close>.
\<close>

theorem write_all_tile_configs_names_counterexample:
  "map fst (written (fst (write_all_tile_configs ''1.0'' example_experiment10 ''/out''
                            (example_world False)))) =
     [''/out/mosaic_00.txt'', ''/out/mosaic_01.txt'', ''/out/mosaic_02.txt'',
      ''/out/mosaic_03.txt'', ''/out/mosaic_04.txt'', ''/out/mosaic_05.txt'',
      ''/out/mosaic_06.txt'', ''/out/mosaic_07.txt'', ''/out/mosaic_08.txt'',
      ''/out/mosaic_09.txt'']
   \<and> map supplement_index (mosaics example_experiment10) = [0, 1, 2, 3, 4, 5, 6, 7, 8, 9]
   \<and> length (str_nat 9) = 1
   \<and> ''mosaic_'' @ fmt_0i (length (str_nat 9)) 0 @ ''.txt'' = ''mosaic_0.txt''"
  using written_example10
  by (simp add: example_experiment10_def example_mosaic_def str_nat.simps fmt_0i_def digit_char_def)

text \<open>
  Claim C3, amended: when every configuration can be generated and no \<open>open\<close> or
  write fails, \<open>write_all_tile_configs\<close> writes, for each mosaic in order, its
  configuration to the file \<open>mosaic_<index>.txt\<close> in the output directory (the
  mosaic's own directory when none is given), the index zero-padded to the width of the
  decimal number of mosaics of the experiment, not of the largest index; a non-negative index
  is its digits behind as many zeros as its width lacks.
\<close>

theorem write_all_tile_configs_names:
  assumes "\<forall>m \<in> set (mosaics e). \<exists>c. gen_tile_config vers m = Inr c"
    and "\<forall>f. \<not> open_fails w f" and "\<forall>f. \<not> write_fails w f"
  shows "write_all_tile_configs vers e outdir w =
           (w\<lparr>written := written w @
                 map (\<lambda>m. (join (if outdir = [] then storage_path m else outdir)
                              (''mosaic_''
                               @ fmt_0i (length (str_nat (length (mosaics e)))) (supplement_index m)
                               @ ''.txt''),
                            projr (gen_tile_config vers m))) (mosaics e)\<rparr>,
            Inr ()) \<and>
         (\<forall>m \<in> set (mosaics e). 0 \<le> supplement_index m \<longrightarrow>
            fmt_0i (length (str_nat (length (mosaics e)))) (supplement_index m) =
              replicate (length (str_nat (length (mosaics e)))
                         - length (str_nat (nat (supplement_index m)))) CHR ''0''
              @ str_nat (nat (supplement_index m)))"
  using write_all_loop_ok [OF assms]
  by (simp add: write_all_tile_configs_def fmt_0i_nonneg)

text \<open>
  Claim C3, amended, at the experiment of ten mosaics.
\<close>

theorem write_all_tile_configs_names_witness:
  "map fst (written (fst (write_all_tile_configs ''1.0'' example_experiment10 ''/out''
                            (example_world False)))) =
     map (\<lambda>m. join ''/out'' (''mosaic_'' @ fmt_0i 2 (supplement_index m) @ ''.txt''))
       (mosaics example_experiment10)"
proof -
  have w: "\<forall>f. \<not> open_fails (example_world False) f" "\<forall>f. \<not> write_fails (example_world False) f"
    by (simp_all add: example_world_def)
  have p: "length (str_nat (length (mosaics example_experiment10))) = 2"
    by (simp add: example_experiment10_def str_nat.simps)
  from write_all_tile_configs_names [OF gen_tile_config_example10 w, of "''/out''"]
  show ?thesis
    unfolding p by (simp add: example_world_def comp_def)
qed

lemma write_stitching_macro_closes:
  "open_files (fst (write_stitching_macro code fname dname w)) = open_files w"
  by (simp add: write_stitching_macro_def Let_def py_open_def writelines_def py_close_def)

lemma write_tile_config_closes_on_success:
  "write_tile_config vers m outdir padlen w = (w', Inr u) \<Longrightarrow> open_files w' = open_files w"
  by (auto simp: write_tile_config_def Let_def py_open_def writelines_def py_close_def
      split: sum.splits if_splits)

text \<open>
  Claim C9 says that both writing functions close their file also when the write fails.
  \<open>write_stitching_macro\<close> does (\<open>write_stitching_macro_closes\<close>), and
  \<open>write_tile_config\<close> does when it succeeds
  (\<open>write_tile_config_closes_on_success\<close>); but when \<open>writelines\<close>
  raises in \<open>write_tile_config\<close>, \<open>out.close()\<close> is not reached and
  the file stays open.
\<close>

theorem write_tile_config_leaves_file_open:
  "open_files (fst (write_tile_config ''1.0''
       (example_mosaic [example_vol 1 [Finite False 0, Finite False 0] ''/data/m/a.oib''] 0 10)
       ''/out'' 1 (example_world True))) = [''/out/mosaic_0.txt'']
   \<and> snd (write_tile_config ''1.0''
       (example_mosaic [example_vol 1 [Finite False 0, Finite False 0] ''/data/m/a.oib''] 0 10)
       ''/out'' 1 (example_world True)) = Inl IOError
   \<and> open_files (example_world True) = []"
proof -
  let ?v = "example_vol 1 [Finite False 0, Finite False 0] ''/data/m/a.oib''"
  let ?m = "example_mosaic [?v] 0 10"
  have "\<exists>c. gen_tile_config ''1.0'' ?m = Inr c"
    by (rule gen_tile_config_total [where ?v0.0 = ?v and vs = "[]"])
       (simp_all add: example_mosaic_def example_vol_def)
  then obtain c where c: "gen_tile_config ''1.0'' ?m = Inr c" ..
  show ?thesis
    unfolding write_tile_config_def c
    by (simp add: Let_def py_open_def writelines_def example_world_def
        example_mosaic_def fmt_0i_def str_nat.simps digit_char_def join_def startswith_def
        endswith_def)
qed

section \<open>Properties of locate_templates\<close>

lemma sorted_le_last: "sorted xs \<Longrightarrow> x \<in> set xs \<Longrightarrow> x \<le> last xs"
  by (induction xs) auto

lemma sort_last:
  fixes xs :: "'a::linorder list"
  assumes "xs \<noteq> []"
  shows "last (sort xs) \<in> set xs" and "\<forall>x \<in> set xs. x \<le> last (sort xs)"
proof -
  have ne: "sort xs \<noteq> []" using assms by (metis set_empty set_sort)
  from last_in_set [OF ne] show "last (sort xs) \<in> set xs" by simp
  show "\<forall>x \<in> set xs. x \<le> last (sort xs)"
    using sorted_le_last [of "sort xs"] by simp
qed

lemma lower_jar: "lower ''.jar'' = ''.jar''"
  by (simp add: lower_def lower_char_def)

lemma endswith_lower_jar:
  assumes "endswith p ''.jar''"
  shows "endswith (lower p) ''.jar''"
proof -
  from assms have d: "drop (length p - length ''.jar'') p = ''.jar''"
    and l: "length ''.jar'' \<le> length p"
    by (simp_all add: endswith_def)
  have "drop (length (lower p) - length ''.jar'') (lower p)
          = lower (drop (length p - length ''.jar'') p)"
    by (simp add: lower_def drop_map)
  also have "\<dots> = ''.jar''"
    unfolding d by (rule lower_jar)
  finally have "drop (length (lower p) - length ''.jar'') (lower p) = ''.jar''" .
  moreover have "length ''.jar'' \<le> length (lower p)"
    using l by (simp add: lower_def)
  ultimately show ?thesis
    unfolding endswith_def by blast
qed

lemma locate_templates_jar_eq:
  assumes "tplpath \<noteq> []" and "endswith (lower tplpath) ''.jar''"
    and "listdir env (dirname tplpath) = Some names"
  shows "locate_templates env tplpath =
           (let candidates = sort (filter (\<lambda>candidate. startswith candidate
                                             (basename (splitext_root tplpath))) names)
            in if candidates = [] then Inl IndexError
               else if \<not> exists env (join (dirname tplpath) (last candidates)) then Inl IOError
               else Inr (join (dirname tplpath) (last candidates)))"
  using assms by (simp add: locate_templates_def Let_def)

text \<open>
  Claim C4 says that for a path ending in \<open>.jar\<close> whose directory lists at least
  one name starting with the jar's base name, \<open>locate_templates\<close> returns the path
  of the lexically last such name. Here the directory lists \<open>foo-1.0.0.jar\<close> and
  \<open>foo-1.2.0.jar\<close>, and only the first exists for \<open>pathtools.exists\<close>
  (the second is, say, a dangling link): the last candidate is picked, the test on lines 129
  and 130 finds that it does not exist, and IOError is raised.
\<close>

theorem locate_templates_jar_counterexample:
  "endswith ''/plugins/foo.jar'' ''.jar'' \<and>
   listdir example_env_dangling (dirname ''/plugins/foo.jar'')
     = Some [''foo-1.0.0.jar'', ''foo-1.2.0.jar''] \<and>
   startswith ''foo-1.2.0.jar'' (basename (splitext_root ''/plugins/foo.jar'')) \<and>
   locate_templates example_env_dangling ''/plugins/foo.jar'' = Inl IOError"
proof -
  have d: "dirname ''/plugins/foo.jar'' = ''/plugins''"
    by (simp add: dirname_def rstrip_sep_def)
  have b: "basename (splitext_root ''/plugins/foo.jar'') = ''foo''"
    by (simp add: basename_def splitext_root_def)
  have l: "endswith (lower ''/plugins/foo.jar'') ''.jar''"
    by (simp add: endswith_def lower_def lower_char_def)
  have "locate_templates example_env_dangling ''/plugins/foo.jar'' = Inl IOError"
    by (simp add: locate_templates_def l d b Let_def example_env_dangling_def example_env_def
        startswith_def join_def endswith_def)
  then show ?thesis
    by (simp add: d b endswith_def startswith_def example_env_dangling_def example_env_def)
qed

text \<open>
  Claim C4, amended: for a path ending in \<open>.jar\<close> whose directory lists at least
  one name that starts with the jar's base name, \<open>locate_templates\<close> picks the
  greatest such name in the lexical order of strings; it returns the path of that name in
  the directory when that path exists for \<open>pathtools.exists\<close>, and raises IOError
  when it does not.
\<close>

theorem locate_templates_jar:
  assumes "endswith tplpath ''.jar''"
    and "listdir env (dirname tplpath) = Some names"
    and "\<exists>c \<in> set names. startswith c (basename (splitext_root tplpath))"
  shows "\<exists>best. best \<in> set names \<and> startswith best (basename (splitext_root tplpath)) \<and>
           (\<forall>n \<in> set names. startswith n (basename (splitext_root tplpath)) \<longrightarrow> n \<le> best) \<and>
           locate_templates env tplpath =
             (if exists env (join (dirname tplpath) best)
              then Inr (join (dirname tplpath) best) else Inl IOError)"
proof -
  let ?B = "basename (splitext_root tplpath)"
  let ?cs = "filter (\<lambda>candidate. startswith candidate ?B) names"
  from assms(1) have ne: "tplpath \<noteq> []"
    by (auto simp: endswith_def)
  from assms(3) have cs: "?cs \<noteq> []"
    by (simp add: filter_empty_conv)
  then have s: "sort ?cs \<noteq> []"
    by (metis set_empty set_sort)
  from sort_last [OF cs] have best: "last (sort ?cs) \<in> set ?cs"
    and top: "\<forall>x \<in> set ?cs. x \<le> last (sort ?cs)"
    by blast+
  have "locate_templates env tplpath =
          (if exists env (join (dirname tplpath) (last (sort ?cs)))
           then Inr (join (dirname tplpath) (last (sort ?cs))) else Inl IOError)"
    using locate_templates_jar_eq [OF ne endswith_lower_jar [OF assms(1)] assms(2)] s
    by (simp add: Let_def)
  with best top show ?thesis
    by (intro exI [of _ "last (sort ?cs)"]) auto
qed

text \<open>
  Claim C4, amended, at a directory holding \<open>foo-1.0.0.jar\<close>,
  \<open>foo-1.2.0.jar\<close> and \<open>bar.jar\<close>, all of which exist.
\<close>

theorem locate_templates_jar_witness:
  "locate_templates (example_env [''foo-1.0.0.jar'', ''foo-1.2.0.jar'', ''bar.jar''])
       ''/plugins/foo.jar'' = Inr ''/plugins/foo-1.2.0.jar''
   \<and> ''foo-1.0.0.jar'' \<le> ''foo-1.2.0.jar''"
proof -
  let ?names = "[''foo-1.0.0.jar'', ''foo-1.2.0.jar'', ''bar.jar'']"
  let ?env = "example_env ?names"
  have d: "dirname ''/plugins/foo.jar'' = ''/plugins''"
    by (simp add: dirname_def rstrip_sep_def)
  have b: "basename (splitext_root ''/plugins/foo.jar'') = ''foo''"
    by (simp add: basename_def splitext_root_def)
  have h1: "endswith ''/plugins/foo.jar'' ''.jar''"
    by (simp add: endswith_def)
  have h2: "listdir ?env (dirname ''/plugins/foo.jar'') = Some ?names"
    by (simp add: d example_env_def)
  have h3: "\<exists>c \<in> set ?names. startswith c (basename (splitext_root ''/plugins/foo.jar''))"
    by (simp add: b startswith_def)
  from locate_templates_jar [OF h1 h2 h3]
  obtain best where m: "best \<in> set ?names" and s: "startswith best ''foo''"
    and t: "\<forall>n \<in> set ?names. startswith n ''foo'' \<longrightarrow> n \<le> best"
    and r: "locate_templates ?env ''/plugins/foo.jar'' =
              (if exists ?env (join ''/plugins'' best)
               then Inr (join ''/plugins'' best) else Inl IOError)"
    unfolding d b by blast
  from t have "''foo-1.2.0.jar'' \<le> best" "''foo-1.0.0.jar'' \<le> best"
    by (simp_all add: startswith_def)
  moreover from m s have "best = ''foo-1.0.0.jar'' \<or> best = ''foo-1.2.0.jar''"
    by (auto simp: startswith_def)
  ultimately have e: "best = ''foo-1.2.0.jar''" and "''foo-1.0.0.jar'' \<le> ''foo-1.2.0.jar''"
    by auto
  moreover have "exists ?env (join ''/plugins'' ''foo-1.2.0.jar'')"
    by (simp add: example_env_def)
  ultimately show ?thesis
    using r by (simp add: join_def startswith_def endswith_def)
qed

text \<open>
  Claim C5 says that \<open>locate_templates\<close> fails with IOError, and with no other
  error of its own, whenever no template location or jar candidate exists. For a jar path
  whose directory lists no name starting with the jar's base name the list of candidates is
  empty and \<open>candidates[-1]\<close> raises IndexError before the test that raises
  IOError is reached.
\<close>

theorem locate_templates_no_candidate:
  "locate_templates (example_env [''bar.txt'']) ''/plugins/foo.jar'' = Inl IndexError"
proof -
  have d: "dirname ''/plugins/foo.jar'' = ''/plugins''"
    by (simp add: dirname_def rstrip_sep_def)
  have b: "basename (splitext_root ''/plugins/foo.jar'') = ''foo''"
    by (simp add: basename_def splitext_root_def)
  have l: "endswith (lower ''/plugins/foo.jar'') ''.jar''"
    by (simp add: endswith_def lower_def lower_char_def)
  show ?thesis
    by (simp add: locate_templates_def l d b Let_def example_env_def startswith_def)
qed

section \<open>Properties of gen_stitching_macro_code\<close>

lemma foldl_opts:
  "foldl (\<lambda>ijm (option, value). ijm @ [option @ '' = '' @ value @ '';\<newline>'']) ijm opts
     = ijm @ map (\<lambda>(option, value). option @ '' = '' @ value @ '';\<newline>'') opts"
  by (induction opts arbitrary: ijm) auto

lemma gen_stitching_macro_code_Inr_iff:
  "gen_stitching_macro_code env e pfx path tplpath opts = Inr ijm \<longleftrightarrow>
     (\<exists>templates head m0 ms body.
        locate_templates env tplpath = Inr templates \<and>
        readtxt env (pfx @ ''_head.ijm'') templates = Inr head \<and>
        mosaics e = m0 # ms \<and>
        readtxt env (pfx @ ''_body.ijm'') templates = Inr body \<and>
        ijm = [''// Generated by '' @ py_module_name @ '' ('' @ version env @ '').\<newline>\<newline>'',
               ''// =================== BEGIN macro HEAD ===================\<newline>'']
              @ head
              @ [''// ==================== END macro HEAD ====================\<newline>'',
                 ''\<newline>'',
                 ''name = '' @ [dquote] @ infile_dname e @ [dquote] @ '';\<newline>'',
                 ''input_dir='' @ [dquote] @ replace_char backslash [backslash, backslash] path
                   @ [dquote] @ '';\<newline>'',
                 ''use_batch_mode = true;\<newline>'']
              @ map (\<lambda>(option, value). option @ '' = '' @ value @ '';\<newline>'') opts
              @ (if overlap_pct m0 < 5 then [''compute = false;\<newline>''] else [])
              @ [''\<newline>'',
                 ''// =================== BEGIN macro BODY ===================\<newline>'']
              @ body
              @ [''// ==================== END macro BODY ====================\<newline>''])"
  unfolding gen_stitching_macro_code_def Let_def foldl_opts
  by (auto split: sum.splits list.splits)

lemma gen_stitching_macro_code_Inr:
  assumes "locate_templates env tplpath = Inr templates"
    and "readtxt env (pfx @ ''_head.ijm'') templates = Inr head"
    and "mosaics e = m0 # ms"
    and "readtxt env (pfx @ ''_body.ijm'') templates = Inr body"
  shows "gen_stitching_macro_code env e pfx path tplpath opts =
     Inr ([''// Generated by '' @ py_module_name @ '' ('' @ version env @ '').\<newline>\<newline>'',
               ''// =================== BEGIN macro HEAD ===================\<newline>'']
              @ head
              @ [''// ==================== END macro HEAD ====================\<newline>'',
                 ''\<newline>'',
                 ''name = '' @ [dquote] @ infile_dname e @ [dquote] @ '';\<newline>'',
                 ''input_dir='' @ [dquote] @ replace_char backslash [backslash, backslash] path
                   @ [dquote] @ '';\<newline>'',
                 ''use_batch_mode = true;\<newline>'']
              @ map (\<lambda>(option, value). option @ '' = '' @ value @ '';\<newline>'') opts
              @ (if overlap_pct m0 < 5 then [''compute = false;\<newline>''] else [])
              @ [''\<newline>'',
                 ''// =================== BEGIN macro BODY ===================\<newline>'']
              @ body
              @ [''// ==================== END macro BODY ====================\<newline>''])"
  unfolding gen_stitching_macro_code_Inr_iff using assms by simp

lemma count_replace_backslash:
  "count_list (replace_char backslash [backslash, backslash] path) backslash
     = 2 * count_list path backslash"
  by (induction path) (simp_all add: replace_char_def)

lemma locate_templates_example: "locate_templates (example_env names) ''/tpl'' = Inr ''/tpl''"
  by (simp add: locate_templates_def example_env_def endswith_def lower_def lower_char_def)

lemma readtxt_example_head:
  "readtxt (example_env []) (''stitch'' @ ''_head.ijm'') ''/tpl'' = Inr [''// stitch_head.ijm\<newline>'']"
  by (simp add: example_env_def)

lemma readtxt_example_body:
  "readtxt (example_env []) (''stitch'' @ ''_body.ijm'') ''/tpl'' = Inr [''// stitch_body.ijm\<newline>'']"
  by (simp add: example_env_def)

lemma mosaics_example_experiment:
  "mosaics (example_experiment pct) =
     example_mosaic [example_vol 1 [Finite False 0, Finite False 0] ''/data/m/a.oib''] 0 pct # []"
  by (simp add: example_experiment_def)

text \<open>
  Claim C6: \<open>gen_stitching_macro_code\<close> inserts the line \<open>compute =
  false;\<close> if and only if the overlap percentage (that of the experiment's first mosaic)
  is below 5.0. Whenever the macro is generated, it holds that line once more than the head
  template, the option lines and the body template hold it together exactly when the overlap
  is below 5.0; so when neither the templates nor the option lines hold it, the line is in the
  macro if and only if the overlap is below 5.0.
\<close>

theorem gen_stitching_macro_code_compute:
  assumes "locate_templates env tplpath = Inr templates"
    and "readtxt env (pfx @ ''_head.ijm'') templates = Inr head"
    and "mosaics e = m0 # ms"
    and "readtxt env (pfx @ ''_body.ijm'') templates = Inr body"
  shows "\<exists>ijm. gen_stitching_macro_code env e pfx path tplpath opts = Inr ijm \<and>
           count_list ijm ''compute = false;\<newline>'' =
             count_list head ''compute = false;\<newline>''
             + count_list (map (\<lambda>(option, value). option @ '' = '' @ value @ '';\<newline>'') opts)
                 ''compute = false;\<newline>''
             + count_list body ''compute = false;\<newline>''
             + (if overlap_pct m0 < 5.0 then 1 else 0) \<and>
           (''compute = false;\<newline>'' \<notin> set head \<and> ''compute = false;\<newline>'' \<notin> set body \<and>
            ''compute = false;\<newline>''
               \<notin> set (map (\<lambda>(option, value). option @ '' = '' @ value @ '';\<newline>'') opts)
            \<longrightarrow> (''compute = false;\<newline>'' \<in> set ijm \<longleftrightarrow> overlap_pct m0 < 5.0))"
proof -
  let ?L = "''compute = false;\<newline>''"
  let ?ol = "map (\<lambda>(option, value). option @ '' = '' @ value @ '';\<newline>'') opts"
  let ?ijm = "[''// Generated by '' @ py_module_name @ '' ('' @ version env @ '').\<newline>\<newline>'',
               ''// =================== BEGIN macro HEAD ===================\<newline>'']
              @ head
              @ [''// ==================== END macro HEAD ====================\<newline>'',
                 ''\<newline>'',
                 ''name = '' @ [dquote] @ infile_dname e @ [dquote] @ '';\<newline>'',
                 ''input_dir='' @ [dquote] @ replace_char backslash [backslash, backslash] path
                   @ [dquote] @ '';\<newline>'',
                 ''use_batch_mode = true;\<newline>'']
              @ ?ol
              @ (if overlap_pct m0 < 5 then [?L] else [])
              @ [''\<newline>'',
                 ''// =================== BEGIN macro BODY ===================\<newline>'']
              @ body
              @ [''// ==================== END macro BODY ====================\<newline>'']"
  have r: "gen_stitching_macro_code env e pfx path tplpath opts = Inr ?ijm"
    by (rule gen_stitching_macro_code_Inr [OF assms])
  have c: "count_list ?ijm ?L =
             count_list head ?L + count_list ?ol ?L + count_list body ?L
             + (if overlap_pct m0 < 5.0 then 1 else 0)"
    by simp
  have m: "?L \<in> set ?ijm \<longleftrightarrow>
             ?L \<in> set head \<or> ?L \<in> set ?ol \<or> ?L \<in> set body \<or> overlap_pct m0 < 5.0"
    by auto
  show ?thesis
    using r c m by (intro exI [of _ ?ijm]) blast
qed

text \<open>
  Claim C6 at an experiment whose first mosaic has an overlap of 3 percent.
\<close>

theorem gen_stitching_macro_code_compute_witness:
  "\<exists>ijm. gen_stitching_macro_code (example_env []) (example_experiment 3) ''stitch'' ''/data''
            ''/tpl'' [(''fusion'', ''1'')] = Inr ijm \<and>
         ''compute = false;\<newline>'' \<in> set ijm"
proof -
  from gen_stitching_macro_code_compute
         [OF locate_templates_example [of "[]"] readtxt_example_head
             mosaics_example_experiment [of 3] readtxt_example_body,
          where path = "''/data''" and opts = "[(''fusion'', ''1'')]"]
  show ?thesis
    by (auto simp: example_mosaic_def)
qed

text \<open>
  Claim C8: the generated macro is, in this order, the generated-by comment and the marker of
  the head, the lines of the head template, the end marker and an empty line, the assignment
  of the experiment name, the assignment of the input path with its backslashes doubled, the
  batch-mode flag, one \<open>key = value;\<close> line per option in the order of
  \<open>opts.items()\<close>, the line \<open>compute = false;\<close> when the overlap is
  below 5.0, an empty line and the marker of the body, the lines of the body template and the
  end marker.
\<close>

theorem gen_stitching_macro_code_order:
  assumes "locate_templates env tplpath = Inr templates"
    and "readtxt env (pfx @ ''_head.ijm'') templates = Inr head"
    and "mosaics e = m0 # ms"
    and "readtxt env (pfx @ ''_body.ijm'') templates = Inr body"
  shows "gen_stitching_macro_code env e pfx path tplpath opts =
     Inr ([''// Generated by '' @ py_module_name @ '' ('' @ version env @ '').\<newline>\<newline>'',
               ''// =================== BEGIN macro HEAD ===================\<newline>'']
              @ head
              @ [''// ==================== END macro HEAD ====================\<newline>'',
                 ''\<newline>'',
                 ''name = '' @ [dquote] @ infile_dname e @ [dquote] @ '';\<newline>'',
                 ''input_dir='' @ [dquote] @ replace_char backslash [backslash, backslash] path
                   @ [dquote] @ '';\<newline>'',
                 ''use_batch_mode = true;\<newline>'']
              @ map (\<lambda>(option, value). option @ '' = '' @ value @ '';\<newline>'') opts
              @ (if overlap_pct m0 < 5.0 then [''compute = false;\<newline>''] else [])
              @ [''\<newline>'',
                 ''// =================== BEGIN macro BODY ===================\<newline>'']
              @ body
              @ [''// ==================== END macro BODY ====================\<newline>''])"
  using gen_stitching_macro_code_Inr [OF assms] by simp

text \<open>
  Claim C8 at an experiment with an overlap of 3 percent, a Windows input path and two
  options.
\<close>

theorem gen_stitching_macro_code_order_witness:
  "gen_stitching_macro_code (example_env []) (example_experiment 3) ''stitch''
       (''C:'' @ [backslash] @ ''data'') ''/tpl'' [(''fusion'', ''1''), (''rgb'', ''2'')] =
     Inr [''// Generated by micrometa.imagej (1.0).\<newline>\<newline>'',
          ''// =================== BEGIN macro HEAD ===================\<newline>'',
          ''// stitch_head.ijm\<newline>'',
          ''// ==================== END macro HEAD ====================\<newline>'',
          ''\<newline>'',
          ''name = '' @ [dquote] @ ''exp'' @ [dquote] @ '';\<newline>'',
          ''input_dir='' @ [dquote] @ ''C:'' @ [backslash, backslash] @ ''data'' @ [dquote] @ '';\<newline>'',
          ''use_batch_mode = true;\<newline>'',
          ''fusion = 1;\<newline>'',
          ''rgb = 2;\<newline>'',
          ''compute = false;\<newline>'',
          ''\<newline>'',
          ''// =================== BEGIN macro BODY ===================\<newline>'',
          ''// stitch_body.ijm\<newline>'',
          ''// ==================== END macro BODY ====================\<newline>'']"
proof -
  from gen_stitching_macro_code_order
         [OF locate_templates_example [of "[]"] readtxt_example_head
             mosaics_example_experiment [of 3] readtxt_example_body,
          where path = "''C:'' @ [backslash] @ ''data''"
            and opts = "[(''fusion'', ''1''), (''rgb'', ''2'')]"]
  show ?thesis
    by (simp add: example_mosaic_def example_env_def example_experiment_def py_module_name_def
        replace_char_def)
qed

text \<open>
  Claim C7 says that no line emitted by the two generators contains a backslash. The macro
  generated for a Windows input path with one backslash has an \<open>input_dir\<close> line
  with two of them.
\<close>

theorem macro_backslash_counterexample:
  "gen_stitching_macro_code (example_env []) (example_experiment 10) ''stitch''
       (''C:'' @ [backslash] @ ''data'') ''/tpl'' [] =
     Inr [''// Generated by micrometa.imagej (1.0).\<newline>\<newline>'',
          ''// =================== BEGIN macro HEAD ===================\<newline>'',
          ''// stitch_head.ijm\<newline>'',
          ''// ==================== END macro HEAD ====================\<newline>'',
          ''\<newline>'',
          ''name = '' @ [dquote] @ ''exp'' @ [dquote] @ '';\<newline>'',
          ''input_dir='' @ [dquote] @ ''C:'' @ [backslash, backslash] @ ''data'' @ [dquote] @ '';\<newline>'',
          ''use_batch_mode = true;\<newline>'',
          ''\<newline>'',
          ''// =================== BEGIN macro BODY ===================\<newline>'',
          ''// stitch_body.ijm\<newline>'',
          ''// ==================== END macro BODY ====================\<newline>'']
   \<and> backslash \<in> set (''input_dir='' @ [dquote] @ ''C:'' @ [backslash, backslash] @ ''data''
                          @ [dquote] @ '';\<newline>'')"
proof -
  from gen_stitching_macro_code_Inr
         [OF locate_templates_example [of "[]"] readtxt_example_head
             mosaics_example_experiment [of 10] readtxt_example_body,
          where path = "''C:'' @ [backslash] @ ''data''" and opts = "[]"]
  show ?thesis
    by (simp add: example_mosaic_def example_env_def example_experiment_def py_module_name_def
        replace_char_def)
qed

text \<open>
  Claim C7, amended: no line of a tile configuration after its first line (the comment that
  carries the package version) contains a backslash, whatever the separators of the input
  paths; in the macro the input path is not converted: the \<open>input_dir\<close> line holds
  the path with every backslash doubled.
\<close>

theorem emitted_path_separators:
  "(gen_tile_config vers m = Inr conf \<longrightarrow> (\<forall>l \<in> set (drop 1 conf). backslash \<notin> set l)) \<and>
   (gen_stitching_macro_code env e pfx path tplpath opts = Inr ijm \<longrightarrow>
      ''input_dir='' @ [dquote] @ replace_char backslash [backslash, backslash] path
         @ [dquote] @ '';\<newline>'' \<in> set ijm \<and>
      count_list (replace_char backslash [backslash, backslash] path) backslash
         = 2 * count_list path backslash)"
proof (intro conjI impI ballI)
  fix l assume "gen_tile_config vers m = Inr conf" and "l \<in> set (drop 1 conf)"
  then show "backslash \<notin> set l" by (rule gen_tile_config_no_backslash)
next
  assume "gen_stitching_macro_code env e pfx path tplpath opts = Inr ijm"
  then show "''input_dir='' @ [dquote] @ replace_char backslash [backslash, backslash] path
         @ [dquote] @ '';\<newline>'' \<in> set ijm"
    unfolding gen_stitching_macro_code_Inr_iff by auto
next
  show "count_list (replace_char backslash [backslash, backslash] path) backslash
         = 2 * count_list path backslash"
    by (rule count_replace_backslash)
qed

text \<open>
  Claim C7, amended, at a sub-volume path and an input path that hold a backslash.
\<close>

theorem emitted_path_separators_witness:
  "\<exists>conf ijm.
     gen_tile_config ''1.0''
       (example_mosaic [example_vol 1 [Finite False 0, Finite False 0]
                          (''/data/m/sub'' @ [backslash] @ ''a.oib'')] 0 10) = Inr conf \<and>
     (\<forall>l \<in> set (drop 1 conf). backslash \<notin> set l) \<and>
     gen_stitching_macro_code (example_env []) (example_experiment 10) ''stitch''
       (''C:'' @ [backslash] @ ''data'') ''/tpl'' [] = Inr ijm \<and>
     ''input_dir='' @ [dquote] @ ''C:'' @ [backslash, backslash] @ ''data'' @ [dquote] @ '';\<newline>''
       \<in> set ijm"
proof -
  let ?v = "example_vol 1 [Finite False 0, Finite False 0] (''/data/m/sub'' @ [backslash] @ ''a.oib'')"
  let ?m = "example_mosaic [?v] 0 10"
  have "subvol ?m = ?v # []"
    by (simp add: example_mosaic_def)
  moreover have "\<forall>v \<in> set (subvol ?m). length (position_relative v) =
           (if 1 < size_Z ?v \<and> 3 \<le> length (position_relative ?v) then 3 else 2)"
    by (simp add: example_mosaic_def example_vol_def)
  ultimately obtain conf where c: "gen_tile_config ''1.0'' ?m = Inr conf"
    using gen_tile_config_total by blast
  obtain ijm where i: "gen_stitching_macro_code (example_env []) (example_experiment 10) ''stitch''
       (''C:'' @ [backslash] @ ''data'') ''/tpl'' [] = Inr ijm"
    using gen_stitching_macro_code_Inr
         [OF locate_templates_example [of "[]"] readtxt_example_head
             mosaics_example_experiment [of 10] readtxt_example_body]
    by blast
  from emitted_path_separators [of "''1.0''" ?m conf "example_env []" "example_experiment 10"
         "''stitch''" "''C:'' @ [backslash] @ ''data''" "''/tpl''" "[]" ijm] c i
  have "(\<forall>l \<in> set (drop 1 conf). backslash \<notin> set l) \<and>
     ''input_dir='' @ [dquote] @ ''C:'' @ [backslash, backslash] @ ''data'' @ [dquote] @ '';\<newline>''
       \<in> set ijm"
    by (simp add: replace_char_def)
  with c i show ?thesis by blast
qed

end
